theory Spec2Isabelle
  imports Main "HOL-Library.AList"
begin

section \<open>Data model\<close>

text \<open>
  The persisted document of \<^verbatim>\<open>app.py\<close> is \<^verbatim>\<open>{"classrooms": {id: classroom}}\<close>.
  A classroom is the dictionary built in \<^verbatim>\<open>create_classroom\<close>; its nested items are the
  dictionaries built in \<^verbatim>\<open>classroom_page\<close>. Each dictionary with a fixed set of keys is a
  record. Two Python dictionaries use the key \<^verbatim>\<open>text\<close> and two use \<^verbatim>\<open>title\<close>, the session
  and the user dictionary both use \<^verbatim>\<open>role\<close>, and \<^verbatim>\<open>id\<close> is a constant of HOL, so those fields
  carry a prefix here.
  A value that may be Python's \<^verbatim>\<open>None\<close> is an option.
\<close>

text \<open>
  A Python \<^verbatim>\<open>str\<close> is a sequence of Unicode code points, and \<^verbatim>\<open>str.strip\<close> and \<^verbatim>\<open>int\<close> look at
  code points beyond ASCII, so a string is a list of code points here. \<open>lit\<close> writes a
  string literal of the source, which is ASCII throughout.
\<close>

type_synonym pystr = "nat list"

definition lit :: "string \<Rightarrow> pystr" where
  "lit s = map of_char s"

record announcement =
  ann_text :: pystr

record lesson =
  lesson_title :: pystr
  lesson_body :: pystr

record submission =
  student :: "pystr option"
  sub_text :: pystr

record assignment =
  asg_title :: pystr
  asg_desc :: pystr
  submissions :: "submission list"

record classroom =
  c_id :: pystr
  c_name :: pystr
  teacher_name :: pystr
  visibility :: pystr
  code :: pystr
  announcements :: "announcement list"
  lessons :: "lesson list"
  assignments :: "assignment list"

text \<open>
  \<^verbatim>\<open>db["classrooms"]\<close>: a Python dictionary keeps insertion order, and \<^verbatim>\<open>join_classroom\<close>
  iterates over its values in that order, so the store is an association list.
  \<^verbatim>\<open>d.get(k)\<close> is \<^const>\<open>map_of\<close>; \<^verbatim>\<open>d[k] = v\<close> is \<^const>\<open>AList.update\<close>, which overwrites in
  place when the key is there and appends otherwise.
\<close>

type_synonym store = "(pystr \<times> classroom) list"

text \<open>The Flask session: the three keys the application reads and writes.\<close>

record session =
  user_name :: "pystr option"
  session_role :: "pystr option"
  joined_classrooms :: "pystr list option"

text \<open>The dictionary returned by \<^verbatim>\<open>current_user\<close>.\<close>

record user =
  name :: "pystr option"
  role :: "pystr option"
  joined :: "pystr list"

type_synonym form = "pystr \<rightharpoonup> pystr"

datatype http_method = GET | POST

datatype json = JNull | JStr pystr | JArr "json list" | JObj "(pystr \<times> json) list"

datatype response =
    Redirect pystr "(pystr \<times> pystr) list"
  | RenderClassroom "classroom option" user
  | Jsonify json nat

datatype py_error = ValueError

text \<open>
  What a handler leaves behind: its response, the document on disk, the session, and the
  messages passed to \<^verbatim>\<open>flash\<close> (message, category), in order.
\<close>

record outcome =
  resp :: response
  db_out :: store
  session_out :: session
  flashes :: "(pystr \<times> pystr) list"


section \<open>Python built-ins used by the handlers\<close>

text \<open>
  \<^verbatim>\<open>str.isspace\<close> for one code point, the test \<^verbatim>\<open>str.strip()\<close> applies at both ends: the ASCII
  controls 0x09 to 0x0D and 0x1C to 0x1F, space, U+0085, U+00A0, U+1680, U+2000 to U+200A,
  U+2028, U+2029, U+202F, U+205F and U+3000.
\<close>

definition isspace :: "nat \<Rightarrow> bool" where
  "isspace c \<longleftrightarrow> c \<in> set [0x09, 0x0A, 0x0B, 0x0C, 0x0D, 0x1C, 0x1D, 0x1E, 0x1F, 0x20,
                         0x85, 0xA0, 0x1680,
                         0x2000, 0x2001, 0x2002, 0x2003, 0x2004, 0x2005, 0x2006, 0x2007,
                         0x2008, 0x2009, 0x200A,
                         0x2028, 0x2029, 0x202F, 0x205F, 0x3000]"

definition strip :: "pystr \<Rightarrow> pystr" where
  "strip s = rev (dropWhile isspace (rev (dropWhile isspace s)))"

text \<open>\<^verbatim>\<open>request.form.get(key, default)\<close>.\<close>

definition form_get :: "form \<Rightarrow> pystr \<Rightarrow> pystr \<Rightarrow> pystr" where
  "form_get f k d = (case f k of None \<Rightarrow> d | Some v \<Rightarrow> v)"

text \<open>\<^verbatim>\<open>str(n)\<close> for an integer: decimal digits, a minus sign for negatives.\<close>

definition digit_char :: "nat \<Rightarrow> nat" where
  "digit_char d = 48 + d"

fun str_nat :: "nat \<Rightarrow> pystr" where
  "str_nat n = (if n < 10 then [digit_char n] else str_nat (n div 10) @ [digit_char (n mod 10)])"

declare str_nat.simps [simp del]

definition str_int :: "int \<Rightarrow> pystr" where
  "str_int i = (if i < 0 then 45 # str_nat (nat (- i)) else str_nat (nat i))"

text \<open>
  \<^verbatim>\<open>random.randint(a, b)\<close> returns an integer in the closed range from a to b. The
  randomness is a parameter: \<open>r\<close> is the raw draw the call consumes.
\<close>

definition randint :: "int \<Rightarrow> int \<Rightarrow> nat \<Rightarrow> int" where
  "randint a b r = a + int (r mod nat (b - a + 1))"

text \<open>
  \<^verbatim>\<open>int(s)\<close> for a string, as CPython 3.11 computes it, in its two steps.

  First every code point from 127 on is replaced: white space by a space, a decimal digit of
  any script by its ASCII digit; any other one makes the call raise \<^verbatim>\<open>ValueError\<close>. The
  decimal digits are the 66 runs of ten code points of Unicode 14.0, the version of that
  interpreter; \<open>decimal_starts\<close> lists the zero of each run.
\<close>

definition decimal_starts :: "nat list" where
  "decimal_starts =
     [48, 1632, 1776, 1984, 2406, 2534, 2662, 2790, 2918, 3046, 3174, 3302, 3430, 3558, 3664,
      3792, 3872, 4160, 4240, 6112, 6160, 6470, 6608, 6784, 6800, 6992, 7088, 7232, 7248,
      42528, 43216, 43264, 43472, 43504, 43600, 44016, 65296, 66720, 68912, 69734, 69872,
      69942, 70096, 70384, 70736, 70864, 71248, 71360, 71472, 71904, 72016, 72784, 73040,
      73120, 92768, 92864, 93008, 120782, 120792, 120802, 120812, 120822, 123200, 123632,
      125264, 130032]"

definition to_decimal :: "nat \<Rightarrow> nat option" where
  "to_decimal c =
     (case find (\<lambda>z. z \<le> c \<and> c < z + 10) decimal_starts of
        None \<Rightarrow> None
      | Some z \<Rightarrow> Some (c - z))"

fun transform_decimal_and_space :: "pystr \<Rightarrow> pystr option" where
  "transform_decimal_and_space [] = Some []"
| "transform_decimal_and_space (c # cs) =
     (if c < 127 then map_option (Cons c) (transform_decimal_and_space cs)
      else if isspace c then map_option (Cons 32) (transform_decimal_and_space cs)
      else (case to_decimal c of
              None \<Rightarrow> None
            | Some d \<Rightarrow> map_option (Cons (48 + d)) (transform_decimal_and_space cs)))"

text \<open>
  Then the ASCII text is read in base 10: white space of the C locale is skipped (0x09 to
  0x0D and space, so not 0x1C to 0x1F), one sign is allowed, the digits follow, where single
  underscores may stand between two digits, and only white space may come after them.
  \<open>scan_digits\<close> returns the value, the number of digits and the rest of the text;
  \<open>pending\<close> tells that the last character read was an underscore.
\<close>

definition c_isspace :: "nat \<Rightarrow> bool" where
  "c_isspace c \<longleftrightarrow> c \<in> set [0x09, 0x0A, 0x0B, 0x0C, 0x0D, 0x20]"

fun scan_digits :: "nat \<Rightarrow> nat \<Rightarrow> bool \<Rightarrow> pystr \<Rightarrow> (nat \<times> nat \<times> pystr) option" where
  "scan_digits acc n pending [] = (if pending then None else Some (acc, n, []))"
| "scan_digits acc n pending (c # cs) =
     (if c = 95 then (if pending then None else scan_digits acc n True cs)
      else if 48 \<le> c \<and> c \<le> 57 then scan_digits (acc * 10 + (c - 48)) (Suc n) False cs
      else if pending then None
      else Some (acc, n, c # cs))"

text \<open>
  The interpreter refuses a text of more than \<^verbatim>\<open>sys.get_int_max_str_digits()\<close> digits; the
  application leaves the limit at its default.
\<close>

definition int_max_str_digits :: nat where
  "int_max_str_digits = 4300"

definition py_int :: "pystr \<Rightarrow> py_error + int" where
  "py_int s =
     (case transform_decimal_and_space s of
        None \<Rightarrow> Inl ValueError
      | Some a \<Rightarrow>
          let t = dropWhile c_isspace a;
              negative = (case t of [] \<Rightarrow> False | c # _ \<Rightarrow> c = 45);
              t' = (case t of [] \<Rightarrow> [] | c # cs \<Rightarrow> if c = 43 \<or> c = 45 then cs else t)
          in if (case t' of [] \<Rightarrow> False | c # _ \<Rightarrow> c = 95) then Inl ValueError
             else (case scan_digits 0 0 False t' of
                     None \<Rightarrow> Inl ValueError
                   | Some (v, n, rest) \<Rightarrow>
                       if n = 0 \<or> int_max_str_digits < n \<or> dropWhile c_isspace rest \<noteq> []
                       then Inl ValueError
                       else Inr (if negative then - int v else int v)))"


section \<open>Helpers of the application\<close>

text \<open>\<^verbatim>\<open>generate_code\<close>: six calls of \<^verbatim>\<open>random.randint(0, 9)\<close>; \<open>rnd i\<close> is the i-th raw draw.\<close>

definition generate_code :: "(nat \<Rightarrow> nat) \<Rightarrow> pystr" where
  "generate_code rnd = concat (map (\<lambda>i. str_int (randint 0 9 (rnd i))) [0..<6])"

text \<open>\<^verbatim>\<open>current_user\<close>: \<^verbatim>\<open>session.get\<close> of the three keys, the joined list defaulting to \<^verbatim>\<open>[]\<close>.\<close>

definition current_user :: "session \<Rightarrow> user" where
  "current_user s =
     \<lparr> name = user_name s,
       role = session_role s,
       joined = (case joined_classrooms s of None \<Rightarrow> [] | Some l \<Rightarrow> l) \<rparr>"


section \<open>Route handlers\<close>

text \<open>
  \<^verbatim>\<open>create_classroom\<close>. \<open>uuid\<close> is the value of \<^verbatim>\<open>str(uuid.uuid4())\<close>. The guard
  \<^verbatim>\<open>user["role"] != "Teacher" or not user["name"]\<close> rejects an absent and an empty name, so
  the name is a string where the classroom is built.
\<close>

definition create_classroom :: "(nat \<Rightarrow> nat) \<Rightarrow> pystr \<Rightarrow> store \<Rightarrow> session \<Rightarrow> form \<Rightarrow> outcome" where
  "create_classroom rnd uuid db s f =
     (let u = current_user s;
          denied = \<lparr> resp = Redirect (lit ''login'') [], db_out = db, session_out = s,
                     flashes = [(lit ''Teacher access only.'', lit ''warning'')] \<rparr>
      in case name u of
           None \<Rightarrow> denied
         | Some teacher \<Rightarrow>
             if role u \<noteq> Some (lit ''Teacher'') \<or> teacher = [] then denied
             else
               let nm = strip (form_get f (lit ''classroom_name'') (lit ''Untitled Classroom''));
                   vis = form_get f (lit ''visibility'') (lit ''Private'');
                   cid = uuid;
                   cd = (if vis = lit ''Private'' then generate_code rnd else []);
                   c = \<lparr> c_id = cid,
                         c_name = nm,
                         teacher_name = teacher,
                         visibility = (if vis \<noteq> lit ''Public'' then (lit ''Private'') else (lit ''Public'')),
                         code = cd,
                         announcements = [],
                         lessons = [],
                         assignments = [] \<rparr>
               in \<lparr> resp = Redirect (lit ''teacher_dashboard'') [],
                     db_out = AList.update cid c db,
                     session_out = s,
                     flashes = [(lit ''Classroom '' @ [39] @ nm @ [39] @ lit '' created.'',
                                 lit ''success'')] \<rparr>)"

text \<open>
  \<^verbatim>\<open>int(request.form.get("assignment_idx", -1))\<close>: the default is the integer \<^verbatim>\<open>-1\<close>, a
  field that is present is parsed.
\<close>

definition submit_index :: "form \<Rightarrow> py_error + int" where
  "submit_index f = (case f (lit ''assignment_idx'') of None \<Rightarrow> Inr (- 1) | Some v \<Rightarrow> py_int v)"

text \<open>
  \<^verbatim>\<open>classroom["assignments"][i]["submissions"].append(x)\<close>, for an index the caller has
  checked to be in range.
\<close>

definition append_submission :: "classroom \<Rightarrow> nat \<Rightarrow> submission \<Rightarrow> classroom" where
  "append_submission c i x =
     c\<lparr>assignments :=
         (assignments c)[i := (assignments c ! i)
                                \<lparr>submissions := submissions (assignments c ! i) @ [x]\<rparr>]\<rparr>"

text \<open>
  The \<^verbatim>\<open>POST\<close> part of \<^verbatim>\<open>classroom_page\<close>: the chain over \<^verbatim>\<open>action\<close>. It returns the document
  as saved (unchanged where \<^verbatim>\<open>save_db\<close> is not reached) and the flashed messages, or the
  exception raised by \<^verbatim>\<open>int\<close>. The classroom is mutated inside the loaded document, so saving
  writes it back under its key.
\<close>

definition post_actions :: "store \<Rightarrow> user \<Rightarrow> form \<Rightarrow> pystr \<Rightarrow> classroom
    \<Rightarrow> py_error + (store \<times> (pystr \<times> pystr) list)" where
  "post_actions db u f class_id c =
     (let action = f (lit ''action'') in
      if action = Some (lit ''post_announcement'') then
        if role u = Some (lit ''Teacher'') \<and> name u = Some (teacher_name c) then
          let text = strip (form_get f (lit ''announcement'') []) in
          if text \<noteq> [] then
            Inr (AList.update class_id
                   (c\<lparr>announcements := \<lparr>ann_text = text\<rparr> # announcements c\<rparr>) db,
                 [(lit ''Announcement posted.'', lit ''success'')])
          else Inr (db, [])
        else Inr (db, [(lit ''Only the classroom teacher may post announcements.'', lit ''danger'')])
      else if action = Some (lit ''post_lesson'') then
        if role u = Some (lit ''Teacher'') \<and> name u = Some (teacher_name c) then
          let title = strip (form_get f (lit ''lesson_title'') (lit ''Untitled''));
              body = strip (form_get f (lit ''lesson_body'') [])
          in Inr (AList.update class_id
                    (c\<lparr>lessons := \<lparr>lesson_title = title, lesson_body = body\<rparr> # lessons c\<rparr>) db,
                  [(lit ''Lesson posted.'', lit ''success'')])
        else Inr (db, [(lit ''Only the classroom teacher may post lessons.'', lit ''danger'')])
      else if action = Some (lit ''post_assignment'') then
        if role u = Some (lit ''Teacher'') \<and> name u = Some (teacher_name c)
           \<and> visibility c = lit ''Private'' then
          let title = strip (form_get f (lit ''assignment_title'') (lit ''Assignment''));
              desc = strip (form_get f (lit ''assignment_desc'') [])
          in Inr (AList.update class_id
                    (c\<lparr>assignments :=
                         \<lparr>asg_title = title, asg_desc = desc, submissions = []\<rparr> # assignments c\<rparr>) db,
                  [(lit ''Assignment posted.'', lit ''success'')])
        else Inr (db, [(lit ''Assignments allowed only in private classrooms by the teacher.'',
                        lit ''danger'')])
      else if action = Some (lit ''submit_assignment'') then
        if visibility c = lit ''Private''
           \<and> (class_id \<in> set (joined u)
                \<or> (role u = Some (lit ''Teacher'') \<and> name u = Some (teacher_name c))) then
          (case submit_index f of
             Inl e \<Rightarrow> Inl e
           | Inr assign_idx \<Rightarrow>
               let submission_text = strip (form_get f (lit ''submission_text'') []) in
               if 0 \<le> assign_idx \<and> assign_idx < int (length (assignments c)) then
                 Inr (AList.update class_id
                        (append_submission c (nat assign_idx)
                           \<lparr>student = name u, sub_text = submission_text\<rparr>) db,
                      [(lit ''Assignment submitted.'', lit ''success'')])
               else Inr (db, [(lit ''Invalid assignment.'', lit ''danger'')]))
        else Inr (db, [(lit ''You cannot submit assignments to this classroom.'', lit ''danger'')])
      else Inr (db, []))"

text \<open>
  \<^verbatim>\<open>classroom_page\<close>: lookup, the access check for private classrooms, the \<^verbatim>\<open>POST\<close> actions,
  then the page rendered from the classroom as reloaded.
\<close>

definition classroom_page :: "store \<Rightarrow> session \<Rightarrow> http_method \<Rightarrow> form \<Rightarrow> pystr \<Rightarrow> py_error + outcome" where
  "classroom_page db s m f class_id =
     (case map_of db class_id of
        None \<Rightarrow>
          Inr \<lparr> resp = Redirect (lit ''index'') [], db_out = db, session_out = s,
                flashes = [(lit ''Classroom not found.'', lit ''danger'')] \<rparr>
      | Some c \<Rightarrow>
          let u = current_user s;
              allowed = (if role u = Some (lit ''Teacher'') \<and> name u = Some (teacher_name c) then True
                         else if class_id \<in> set (joined u) then True
                         else False)
          in if visibility c = lit ''Private'' \<and> \<not> allowed then
               Inr \<lparr> resp = Redirect (lit ''index'') [], db_out = db, session_out = s,
                     flashes = [(lit ''This is a private classroom. Use a join code or be invited.'',
                                 lit ''warning'')] \<rparr>
             else if m = POST then
               (case post_actions db u f class_id c of
                  Inl e \<Rightarrow> Inl e
                | Inr (db', fl) \<Rightarrow>
                    Inr \<lparr> resp = RenderClassroom (map_of db' class_id) u, db_out = db',
                          session_out = s, flashes = fl \<rparr>)
             else
               Inr \<lparr> resp = RenderClassroom (Some c) u, db_out = db, session_out = s,
                     flashes = [] \<rparr>)"

text \<open>The loop of \<^verbatim>\<open>join_classroom\<close> over \<^verbatim>\<open>db["classrooms"].values()\<close>, with its \<^verbatim>\<open>break\<close>.\<close>

fun find_by_code :: "classroom list \<Rightarrow> pystr \<Rightarrow> classroom option" where
  "find_by_code [] cd = None"
| "find_by_code (c # cs) cd =
     (if visibility c = lit ''Private'' \<and> code c = cd then Some c else find_by_code cs cd)"

text \<open>
  \<^verbatim>\<open>join_classroom\<close>. \<^verbatim>\<open>session.setdefault("joined_classrooms", [])\<close> creates the list when the
  session has none; the id is appended only when it is not in the list.
\<close>

definition join_classroom :: "store \<Rightarrow> session \<Rightarrow> form \<Rightarrow> outcome" where
  "join_classroom db s f =
     (let cd = strip (form_get f (lit ''code'') []) in
      case find_by_code (map snd db) cd of
        None \<Rightarrow>
          \<lparr> resp = Redirect (lit ''index'') [], db_out = db, session_out = s,
            flashes = [(lit ''Invalid join code.'', lit ''danger'')] \<rparr>
      | Some found \<Rightarrow>
          let jl = (case joined_classrooms s of None \<Rightarrow> [] | Some l \<Rightarrow> l);
              s1 = s\<lparr>joined_classrooms := Some jl\<rparr>;
              s2 = (if c_id found \<notin> set jl
                    then s1\<lparr>joined_classrooms := Some (jl @ [c_id found])\<rparr> else s1)
          in \<lparr> resp = Redirect (lit ''classroom_page'') [(lit ''class_id'', c_id found)],
                db_out = db, session_out = s2,
                flashes = [(lit ''Joined classroom '' @ [39] @ c_name found @ [39] @ lit ''.'',
                            lit ''success'')] \<rparr>)"

text \<open>The classroom dictionary as JSON, keys in the order \<^verbatim>\<open>create_classroom\<close> writes them.\<close>

definition announcement_json :: "announcement \<Rightarrow> json" where
  "announcement_json a = JObj [(lit ''text'', JStr (ann_text a))]"

definition lesson_json :: "lesson \<Rightarrow> json" where
  "lesson_json l = JObj [(lit ''title'', JStr (lesson_title l)), (lit ''body'', JStr (lesson_body l))]"

definition submission_json :: "submission \<Rightarrow> json" where
  "submission_json x =
     JObj [(lit ''student'', (case student x of None \<Rightarrow> JNull | Some n \<Rightarrow> JStr n)),
           (lit ''text'', JStr (sub_text x))]"

definition assignment_json :: "assignment \<Rightarrow> json" where
  "assignment_json a =
     JObj [(lit ''title'', JStr (asg_title a)), (lit ''desc'', JStr (asg_desc a)),
           (lit ''submissions'', JArr (map submission_json (submissions a)))]"

definition classroom_dict :: "classroom \<Rightarrow> (pystr \<times> json) list" where
  "classroom_dict c =
     [(lit ''id'', JStr (c_id c)),
      (lit ''name'', JStr (c_name c)),
      (lit ''teacher_name'', JStr (teacher_name c)),
      (lit ''visibility'', JStr (visibility c)),
      (lit ''code'', JStr (code c)),
      (lit ''announcements'', JArr (map announcement_json (announcements c))),
      (lit ''lessons'', JArr (map lesson_json (lessons c))),
      (lit ''assignments'', JArr (map assignment_json (assignments c)))]"

text \<open>
  \<^verbatim>\<open>classroom_info_json\<close>: a copy of the dictionary, \<^verbatim>\<open>info.pop("code", None)\<close> unless the
  requester is the owning teacher.
\<close>

definition classroom_info_json :: "store \<Rightarrow> session \<Rightarrow> pystr \<Rightarrow> response" where
  "classroom_info_json db s class_id =
     (case map_of db class_id of
        None \<Rightarrow> Jsonify (JObj [(lit ''error'', JStr (lit ''not found''))]) 404
      | Some c \<Rightarrow>
          let u = current_user s;
              info = classroom_dict c;
              info' = (if \<not> (role u = Some (lit ''Teacher'') \<and> name u = Some (teacher_name c))
                       then AList.delete (lit ''code'') info else info)
          in Jsonify (JObj info') 200)"


section \<open>Properties named by the specification\<close>

text \<open>
  The pattern \<^verbatim>\<open>^[0-9]{6}$\<close> of the specification: exactly six characters, each a decimal digit.
\<close>

definition matches_six_digits :: "pystr \<Rightarrow> bool" where
  "matches_six_digits s \<longleftrightarrow> length s = 6 \<and> list_all (\<lambda>c. 48 \<le> c \<and> c \<le> 57) s"

text \<open>
  The invariant of section 8 of the specification, for one classroom: the visibility is
  one of the two values, a private classroom has a six-digit code, a public one has none.
\<close>

definition spec_code_invariant :: "classroom \<Rightarrow> bool" where
  "spec_code_invariant c \<longleftrightarrow>
     (visibility c = lit ''Public'' \<or> visibility c = lit ''Private'')
     \<and> (visibility c = lit ''Private'' \<longrightarrow> matches_six_digits (code c))
     \<and> (visibility c = lit ''Public'' \<longrightarrow> code c = [])"

text \<open>
  The View rule of section 4.3, in the specification's words.
\<close>

definition spec_view_allowed :: "user \<Rightarrow> classroom \<Rightarrow> bool" where
  "spec_view_allowed u c \<longleftrightarrow>
     visibility c = lit ''Public''
     \<or> (role u = Some (lit ''Teacher'') \<and> name u = Some (teacher_name c))
     \<or> c_id c \<in> set (joined u)"

text \<open>
  The SubmitAssignment rule of section 4.3, in the specification's words.
\<close>

definition spec_submit_allowed :: "user \<Rightarrow> classroom \<Rightarrow> bool" where
  "spec_submit_allowed u c \<longleftrightarrow>
     visibility c = lit ''Private''
     \<and> (c_id c \<in> set (joined u)
          \<or> (role u = Some (lit ''Teacher'') \<and> name u = Some (teacher_name c)))"

text \<open>
  The resolver of section 4.4 as the specification words it: the first classroom that is
  private and whose stored code equals the input, compared as it is.
\<close>

definition spec_resolve_by_code :: "store \<Rightarrow> pystr \<Rightarrow> classroom option" where
  "spec_resolve_by_code db input =
     find (\<lambda>c. visibility c = lit ''Private'' \<and> code c = input) (map snd db)"

text \<open>
  A submission is refused when the handler answers with one of its two denials: the
  message of the \<^verbatim>\<open>submit_assignment\<close> branch, or the redirect of the access check.
\<close>

definition submit_refused :: "py_error + outcome \<Rightarrow> bool" where
  "submit_refused r =
     (case r of
        Inl e \<Rightarrow> False
      | Inr out \<Rightarrow>
          flashes out = [(lit ''You cannot submit assignments to this classroom.'', lit ''danger'')]
          \<or> (resp out = Redirect (lit ''index'') []
              \<and> flashes out = [(lit ''This is a private classroom. Use a join code or be invited.'',
                                 lit ''warning'')]))"

text \<open>
  What every document built by the handlers satisfies: a classroom is stored under its own
  id and its visibility is one of the two values.
\<close>

definition wf_store :: "store \<Rightarrow> bool" where
  "wf_store db \<longleftrightarrow>
     list_all (\<lambda>(k, c). c_id c = k \<and> (visibility c = lit ''Public'' \<or> visibility c = lit ''Private'')) db"


section \<open>Example data\<close>

text \<open>
  The scenario of section 8: teacher Ava, student Ben, a session that never logged in, and
  a document with one public and two private classrooms that share a join code.
\<close>

definition teacher_ava :: session where
  "teacher_ava = \<lparr> user_name = Some (lit ''Ava''), session_role = Some (lit ''Teacher''),
                   joined_classrooms = None \<rparr>"

definition student_ben :: session where
  "student_ben = \<lparr> user_name = Some (lit ''Ben''), session_role = Some (lit ''Student''),
                   joined_classrooms = None \<rparr>"

definition ben_joined :: session where
  "ben_joined = student_ben\<lparr>joined_classrooms := Some [lit ''c1'']\<rparr>"

definition anonymous :: session where
  "anonymous = \<lparr> user_name = None, session_role = None, joined_classrooms = None \<rparr>"

definition algebra :: classroom where
  "algebra = \<lparr> c_id = lit ''c1'', c_name = lit ''Algebra'', teacher_name = lit ''Ava'',
               visibility = lit ''Private'', code = lit ''123456'', announcements = [], lessons = [],
               assignments = [\<lparr>asg_title = lit ''HW1'', asg_desc = [], submissions = []\<rparr>] \<rparr>"

definition biology :: classroom where
  "biology = \<lparr> c_id = lit ''c2'', c_name = lit ''Biology'', teacher_name = lit ''Bo'',
               visibility = lit ''Private'', code = lit ''123456'', announcements = [], lessons = [],
               assignments = [] \<rparr>"

definition civics :: classroom where
  "civics = \<lparr> c_id = lit ''c3'', c_name = lit ''Civics'', teacher_name = lit ''Ava'',
              visibility = lit ''Public'', code = [], announcements = [], lessons = [],
              assignments = [] \<rparr>"

definition example_store :: store where
  "example_store = [(lit ''c3'', civics), (lit ''c1'', algebra), (lit ''c2'', biology)]"

definition submit_form :: "pystr \<Rightarrow> form" where
  "submit_form idx = [lit ''action'' \<mapsto> lit ''submit_assignment'', lit ''assignment_idx'' \<mapsto> idx,
                      lit ''submission_text'' \<mapsto> lit ''done'']"


section \<open>Built-ins and the join code\<close>

text \<open>Literals are compared through their characters.\<close>

lemma lit_eq_iff [simp]: "lit a = lit b \<longleftrightarrow> a = b"
proof -
  have "inj (of_char :: char \<Rightarrow> nat)"
    by (rule injI) simp
  then have "inj (map (of_char :: char \<Rightarrow> nat))"
    by simp
  then show ?thesis
    by (auto simp add: lit_def dest: injD)
qed

lemma lit_empty [simp]: "lit a = [] \<longleftrightarrow> a = []" "[] = lit a \<longleftrightarrow> a = []"
  by (auto simp add: lit_def)

lemma str_int_randint: "str_int (randint 0 9 r) = [digit_char (r mod 10)]"
  by (simp add: str_int_def randint_def str_nat.simps)

text \<open>
  Every code that \<^const>\<open>generate_code\<close> returns matches the six-digit pattern, whatever the draws.
\<close>

lemma generate_code_six_digits: "matches_six_digits (generate_code rnd)"
proof -
  have "[0..<6] = [0, 1, 2, 3, 4, 5::nat]" by (simp add: upt_rec)
  moreover have "\<And>n::nat. n mod 10 \<le> 9" by arith
  ultimately show ?thesis
    by (simp add: generate_code_def matches_six_digits_def str_int_randint digit_char_def)
qed

lemma strip_example: "strip (lit '' 123456'') = lit ''123456''"
  by (simp add: strip_def isspace_def lit_def)

lemma strip_examples:
  "strip (lit ''123456'') = lit ''123456''"
  "strip (lit ''654321'') = lit ''654321''"
  "strip (lit ''Drama'') = lit ''Drama''"
  "strip (lit ''Untitled Classroom'') = lit ''Untitled Classroom''"
  "strip (lit ''done'') = lit ''done''"
  by (simp_all add: strip_def isspace_def lit_def)

lemma map_of_update_same: "map_of (AList.update k v al) k = Some v"
  by (simp add: update_conv')

lemma set_update_subset: "set (AList.update k v al) \<subseteq> insert (k, v) (set al)"
  by (induction al) auto

lemma map_of_example_store:
  "map_of example_store (lit ''c1'') = Some algebra"
  "map_of example_store (lit ''c2'') = Some biology"
  "map_of example_store (lit ''c3'') = Some civics"
  by (simp_all add: example_store_def)

lemma current_user_examples:
  "current_user student_ben = \<lparr>name = Some (lit ''Ben''), role = Some (lit ''Student''), joined = []\<rparr>"
  "current_user ben_joined = \<lparr>name = Some (lit ''Ben''), role = Some (lit ''Student''), joined = [lit ''c1'']\<rparr>"
  "current_user teacher_ava = \<lparr>name = Some (lit ''Ava''), role = Some (lit ''Teacher''), joined = []\<rparr>"
  by (simp_all add: current_user_def student_ben_def ben_joined_def teacher_ava_def)

lemma submit_index_examples:
  "submit_index (submit_form (lit ''0'')) = Inr 0"
  "submit_index (submit_form (lit ''1'')) = Inr 1"
  by (simp_all add: submit_index_def submit_form_def py_int_def c_isspace_def
        int_max_str_digits_def lit_def)

text \<open>
  \<^verbatim>\<open>int\<close> away from plain digits: the separator 0x1F is white space for \<^verbatim>\<open>strip\<close> but not for
  \<^verbatim>\<open>int\<close>; a no-break space and an Arabic-Indic digit are read; a run of zeros is read up to
  the limit on the number of digits and refused beyond it.
\<close>

lemma py_int_examples:
  "py_int [0x1F, 48] = Inl ValueError"
  "py_int [0xA0, 48, 0x3000] = Inr 0"
  "py_int [0x661, 0x662] = Inr 12"
  by (simp_all add: py_int_def c_isspace_def isspace_def to_decimal_def decimal_starts_def
        int_max_str_digits_def)

lemma transform_zeros: "transform_decimal_and_space (replicate n 48) = Some (replicate n 48)"
  by (induction n) simp_all

lemma scan_digits_zeros: "scan_digits 0 k False (replicate n 48) = Some (0, k + n, [])"
  by (induction n arbitrary: k) simp_all

lemma py_int_zeros:
  "py_int (replicate n 48) = (if n = 0 \<or> 4300 < n then Inl ValueError else Inr 0)"
proof -
  have "dropWhile c_isspace (replicate n 48) = replicate n 48"
    by (cases n) (simp_all add: c_isspace_def)
  moreover have "(case replicate n (48::nat) of [] \<Rightarrow> False | c # _ \<Rightarrow> c = 45) = False"
    "(case replicate n (48::nat) of [] \<Rightarrow> [] | c # cs \<Rightarrow> if c = 43 \<or> c = 45 then cs else replicate n 48)
       = replicate n 48"
    "(case replicate n (48::nat) of [] \<Rightarrow> False | c # _ \<Rightarrow> c = 95) = False"
    by (cases n; simp)+
  ultimately show ?thesis
    by (simp add: py_int_def transform_zeros scan_digits_zeros int_max_str_digits_def Let_def)
qed

lemma strip_no_break_space: "strip (0xA0 # lit ''123456'' @ [0x3000]) = lit ''123456''"
  by (simp add: strip_def isspace_def lit_def)


section \<open>The document stays well formed\<close>

text \<open>
  The empty document is well formed and every handler keeps it so; the hypotheses on the
  looked-up classroom in the theorems below therefore hold in every document the application
  builds.
\<close>

lemma wf_store_empty: "wf_store []"
  by (simp add: wf_store_def)

lemma wf_store_lookup:
  "wf_store db \<Longrightarrow> map_of db k = Some c \<Longrightarrow>
   c_id c = k \<and> (visibility c = lit ''Public'' \<or> visibility c = lit ''Private'')"
  by (auto simp add: wf_store_def list_all_iff dest!: map_of_SomeD)

lemma wf_store_update:
  "wf_store db \<Longrightarrow> c_id c = k \<Longrightarrow> visibility c = lit ''Public'' \<or> visibility c = lit ''Private'' \<Longrightarrow>
   wf_store (AList.update k c db)"
  using set_update_subset [of k c db] by (auto simp add: wf_store_def list_all_iff)

lemma wf_store_create_classroom:
  "wf_store db \<Longrightarrow> wf_store (db_out (create_classroom rnd uuid db s f))"
  by (auto simp add: create_classroom_def Let_def intro!: wf_store_update split: option.splits)

lemma wf_store_post_actions:
  assumes "wf_store db" and "map_of db k = Some c" and "post_actions db u f k c = Inr (db', fl)"
  shows "wf_store db'"
proof -
  from wf_store_lookup [OF assms(1,2)]
  have c: "c_id c = k" "visibility c = lit ''Public'' \<or> visibility c = lit ''Private''" by simp_all
  have upd: "\<And>c'. c_id c' = k \<Longrightarrow> visibility c' = visibility c \<Longrightarrow> wf_store (AList.update k c' db)"
    using assms(1) c by (auto intro!: wf_store_update)
  show ?thesis
    using assms(3) assms(1)
    by (auto simp add: post_actions_def Let_def append_submission_def c
          intro!: upd split: if_splits sum.splits)
qed

lemma wf_store_classroom_page:
  assumes "wf_store db" and "classroom_page db s m f k = Inr out"
  shows "wf_store (db_out out)"
  using assms
  by (auto simp add: classroom_page_def Let_def
        split: option.splits if_splits sum.splits dest: wf_store_post_actions)

lemma join_classroom_store: "db_out (join_classroom db s f) = db"
  by (simp add: join_classroom_def Let_def split: option.splits)


section \<open>Creating a classroom\<close>

text \<open>
  For a teacher, an absent visibility field and the exact inputs \<^verbatim>\<open>Public\<close> and \<^verbatim>\<open>Private\<close> give a
  classroom that satisfies the invariant.
\<close>

lemma create_classroom_invariant_exact_input:
  assumes "user_name s = Some teacher" and "teacher \<noteq> []"
    and "session_role s = Some (lit ''Teacher'')"
    and "f (lit ''visibility'') = None \<or> f (lit ''visibility'') = Some (lit ''Public'')
         \<or> f (lit ''visibility'') = Some (lit ''Private'')"
  shows "\<exists>c. map_of (db_out (create_classroom rnd uuid db s f)) uuid = Some c
           \<and> spec_code_invariant c"
  using assms
  by (auto simp add: create_classroom_def current_user_def form_get_def map_of_update_same
        Let_def spec_code_invariant_def generate_code_six_digits)

text \<open>
  Claim C1. The invariant is claimed for every classroom that \<^verbatim>\<open>create_classroom\<close> produces,
  whatever the visibility input. The handler run for teacher Ava with the visibility input
  \<^verbatim>\<open>private\<close> (lower case) stores a classroom whose visibility is \<^verbatim>\<open>Private\<close> and whose code is
  empty, which breaks the invariant: the code is generated on the raw input while the stored
  visibility is the normalised one.
\<close>

theorem create_classroom_lowercase_private:
  "map_of (db_out (create_classroom rnd (lit ''c4'') example_store teacher_ava
             [lit ''classroom_name'' \<mapsto> lit ''Drama'', lit ''visibility'' \<mapsto> lit ''private''])) (lit ''c4'')
     = Some \<lparr> c_id = lit ''c4'', c_name = lit ''Drama'', teacher_name = lit ''Ava'',
              visibility = lit ''Private'', code = [],
              announcements = [], lessons = [], assignments = [] \<rparr>
   \<and> \<not> spec_code_invariant
         \<lparr> c_id = lit ''c4'', c_name = lit ''Drama'', teacher_name = lit ''Ava'',
           visibility = lit ''Private'', code = [],
           announcements = [], lessons = [], assignments = [] \<rparr>"
  by (simp add: create_classroom_def current_user_def teacher_ava_def form_get_def
        map_of_update_same Let_def strip_examples spec_code_invariant_def
        matches_six_digits_def)

text \<open>
  The same run with concrete draws: the stored visibility and the stored code.
\<close>

theorem create_classroom_lowercase_private_witness:
  "visibility (the (map_of (db_out (create_classroom (\<lambda>i. i) (lit ''c4'') example_store teacher_ava
             [lit ''classroom_name'' \<mapsto> lit ''Drama'', lit ''visibility'' \<mapsto> lit ''private''])) (lit ''c4'')))
     = lit ''Private''
   \<and> code (the (map_of (db_out (create_classroom (\<lambda>i. i) (lit ''c4'') example_store teacher_ava
             [lit ''classroom_name'' \<mapsto> lit ''Drama'', lit ''visibility'' \<mapsto> lit ''private''])) (lit ''c4''))) = []"
  using create_classroom_lowercase_private [of "\<lambda>i. i"] by simp

text \<open>
  Claim C9. For a teacher and a visibility input that is neither \<^verbatim>\<open>Public\<close> nor \<^verbatim>\<open>Private\<close>,
  the classroom stored under the new id has visibility \<^verbatim>\<open>Private\<close> and the empty code.
\<close>

theorem create_classroom_other_visibility:
  assumes "user_name s = Some teacher" and "teacher \<noteq> []"
    and "session_role s = Some (lit ''Teacher'')"
    and "f (lit ''visibility'') = Some v" and "v \<noteq> lit ''Public''" and "v \<noteq> lit ''Private''"
  shows "map_of (db_out (create_classroom rnd uuid db s f)) uuid =
           Some \<lparr> c_id = uuid,
                  c_name = strip (form_get f (lit ''classroom_name'') (lit ''Untitled Classroom'')),
                  teacher_name = teacher,
                  visibility = lit ''Private'',
                  code = [],
                  announcements = [], lessons = [], assignments = [] \<rparr>"
  using assms
  by (simp add: create_classroom_def current_user_def form_get_def map_of_update_same Let_def)

text \<open>
  Claim C9 at the input \<^verbatim>\<open>public\<close> (lower case).
\<close>

theorem create_classroom_other_visibility_witness:
  "map_of (db_out (create_classroom (\<lambda>i. i) (lit ''c4'') example_store teacher_ava
             [lit ''visibility'' \<mapsto> lit ''public''])) (lit ''c4'')
     = Some \<lparr> c_id = lit ''c4'', c_name = lit ''Untitled Classroom'', teacher_name = lit ''Ava'',
              visibility = lit ''Private'', code = [],
              announcements = [], lessons = [], assignments = [] \<rparr>"
proof -
  let ?f = "[lit ''visibility'' \<mapsto> lit ''public'']"
  have s: "user_name teacher_ava = Some (lit ''Ava'')" "lit ''Ava'' \<noteq> []"
    "session_role teacher_ava = Some (lit ''Teacher'')"
    by (simp_all add: teacher_ava_def)
  have v: "?f (lit ''visibility'') = Some (lit ''public'')" "lit ''public'' \<noteq> lit ''Public''"
    "lit ''public'' \<noteq> lit ''Private''"
    by simp_all
  have n: "strip (form_get ?f (lit ''classroom_name'') (lit ''Untitled Classroom'')) = lit ''Untitled Classroom''"
    by (simp add: form_get_def strip_examples)
  from create_classroom_other_visibility
         [where s = teacher_ava and teacher = "lit ''Ava''" and f = ?f and v = "lit ''public''"
            and rnd = "\<lambda>i. i" and uuid = "lit ''c4''" and db = example_store] s v
  show ?thesis by (simp add: n)
qed


section \<open>Viewing a classroom\<close>

text \<open>
  Claim C2. For a classroom stored under its id with one of the two visibilities, a \<^verbatim>\<open>GET\<close>
  renders the page exactly when the View rule holds, and otherwise redirects to the landing
  view with the warning; a denied request leaves the document as it was, whatever its method
  and form.
\<close>

theorem view_access:
  assumes "map_of db class_id = Some c" and "c_id c = class_id"
    and "visibility c = lit ''Public'' \<or> visibility c = lit ''Private''"
  shows "classroom_page db s GET f class_id =
           (if spec_view_allowed (current_user s) c
            then Inr \<lparr> resp = RenderClassroom (Some c) (current_user s), db_out = db,
                       session_out = s, flashes = [] \<rparr>
            else Inr \<lparr> resp = Redirect (lit ''index'') [], db_out = db, session_out = s,
                       flashes = [(lit ''This is a private classroom. Use a join code or be invited.'',
                                   lit ''warning'')] \<rparr>)
         \<and> (\<not> spec_view_allowed (current_user s) c \<longrightarrow>
              classroom_page db s m f class_id =
                Inr \<lparr> resp = Redirect (lit ''index'') [], db_out = db, session_out = s,
                      flashes = [(lit ''This is a private classroom. Use a join code or be invited.'',
                                  lit ''warning'')] \<rparr>)"
  using assms
  by (auto simp add: classroom_page_def spec_view_allowed_def Let_def)

text \<open>
  Claim C2 on the example: a student who has not joined is turned away (also on a
  \<^verbatim>\<open>POST\<close>), a joined student and the owning teacher see the private classroom, anyone sees
  the public one.
\<close>

theorem view_access_witness:
  "classroom_page example_store student_ben GET Map.empty (lit ''c1'') =
     Inr \<lparr> resp = Redirect (lit ''index'') [], db_out = example_store, session_out = student_ben,
           flashes = [(lit ''This is a private classroom. Use a join code or be invited.'',
                       lit ''warning'')] \<rparr>
   \<and> classroom_page example_store ben_joined GET Map.empty (lit ''c1'') =
       Inr \<lparr> resp = RenderClassroom (Some algebra) (current_user ben_joined),
             db_out = example_store, session_out = ben_joined, flashes = [] \<rparr>
   \<and> classroom_page example_store teacher_ava GET Map.empty (lit ''c1'') =
       Inr \<lparr> resp = RenderClassroom (Some algebra) (current_user teacher_ava),
             db_out = example_store, session_out = teacher_ava, flashes = [] \<rparr>
   \<and> classroom_page example_store student_ben GET Map.empty (lit ''c3'') =
       Inr \<lparr> resp = RenderClassroom (Some civics) (current_user student_ben),
             db_out = example_store, session_out = student_ben, flashes = [] \<rparr>
   \<and> classroom_page example_store student_ben POST (submit_form (lit ''0'')) (lit ''c1'') =
       Inr \<lparr> resp = Redirect (lit ''index'') [], db_out = example_store, session_out = student_ben,
             flashes = [(lit ''This is a private classroom. Use a join code or be invited.'',
                         lit ''warning'')] \<rparr>"
proof -
  have a: "c_id algebra = lit ''c1''" "visibility algebra = lit ''Public'' \<or> visibility algebra = lit ''Private''"
    and c: "c_id civics = lit ''c3''" "visibility civics = lit ''Public'' \<or> visibility civics = lit ''Private''"
    by (simp_all add: algebra_def civics_def)
  have v: "\<not> spec_view_allowed (current_user student_ben) algebra"
    "spec_view_allowed (current_user ben_joined) algebra"
    "spec_view_allowed (current_user teacher_ava) algebra"
    "spec_view_allowed (current_user student_ben) civics"
    by (simp_all add: spec_view_allowed_def current_user_examples algebra_def civics_def)
  show ?thesis
    using view_access [OF map_of_example_store(1) a,
                       where s = student_ben and f = Map.empty and m = POST]
      view_access [OF map_of_example_store(1) a,
                   where s = student_ben and f = "submit_form (lit ''0'')" and m = POST]
      view_access [OF map_of_example_store(1) a,
                   where s = ben_joined and f = Map.empty and m = GET]
      view_access [OF map_of_example_store(1) a,
                   where s = teacher_ava and f = Map.empty and m = GET]
      view_access [OF map_of_example_store(3) c,
                   where s = student_ben and f = Map.empty and m = GET]
      v
    by simp
qed


section \<open>Submitting to an assignment\<close>

text \<open>
  The whole behaviour of a \<^verbatim>\<open>submit_assignment\<close> request on an existing classroom.
\<close>

lemma classroom_page_submit:
  assumes "map_of db class_id = Some c" and "c_id c = class_id"
    and "f (lit ''action'') = Some (lit ''submit_assignment'')"
  shows "classroom_page db s POST f class_id =
     (if spec_submit_allowed (current_user s) c then
        (case submit_index f of
           Inl e \<Rightarrow> Inl e
         | Inr i \<Rightarrow>
             if 0 \<le> i \<and> i < int (length (assignments c)) then
               Inr \<lparr> resp = RenderClassroom
                        (Some (append_submission c (nat i)
                           \<lparr>student = name (current_user s),
                            sub_text = strip (form_get f (lit ''submission_text'') [])\<rparr>))
                        (current_user s),
                     db_out = AList.update class_id
                        (append_submission c (nat i)
                           \<lparr>student = name (current_user s),
                            sub_text = strip (form_get f (lit ''submission_text'') [])\<rparr>) db,
                     session_out = s,
                     flashes = [(lit ''Assignment submitted.'', lit ''success'')] \<rparr>
             else
               Inr \<lparr> resp = RenderClassroom (Some c) (current_user s), db_out = db,
                     session_out = s, flashes = [(lit ''Invalid assignment.'', lit ''danger'')] \<rparr>)
      else if visibility c = lit ''Private'' then
        Inr \<lparr> resp = Redirect (lit ''index'') [], db_out = db, session_out = s,
              flashes = [(lit ''This is a private classroom. Use a join code or be invited.'',
                          lit ''warning'')] \<rparr>
      else
        Inr \<lparr> resp = RenderClassroom (Some c) (current_user s), db_out = db, session_out = s,
              flashes = [(lit ''You cannot submit assignments to this classroom.'', lit ''danger'')] \<rparr>)"
  using assms
  by (auto simp add: classroom_page_def post_actions_def spec_submit_allowed_def Let_def
        map_of_update_same split: sum.splits)

lemma append_submission_assignments:
  assumes "i < length (assignments c)"
  shows "length (assignments (append_submission c i x)) = length (assignments c)"
    and "submissions (assignments (append_submission c i x) ! i)
           = submissions (assignments c ! i) @ [x]"
    and "j \<noteq> i \<Longrightarrow> assignments (append_submission c i x) ! j = assignments c ! j"
  using assms by (simp_all add: append_submission_def)

text \<open>
  When \<^verbatim>\<open>int\<close> raises on the index field of a permitted submission, the handler raises with
  it, before anything is saved.
\<close>

lemma submit_unreadable_index_raises:
  assumes "map_of db class_id = Some c" and "c_id c = class_id"
    and "f (lit ''action'') = Some (lit ''submit_assignment'')"
    and "spec_submit_allowed (current_user s) c"
    and "submit_index f = Inl e"
  shows "classroom_page db s POST f class_id = Inl e"
  using classroom_page_submit [of db class_id c f s] assms by simp

text \<open>
  Claim C3. A \<^verbatim>\<open>submit_assignment\<close> request is not refused exactly when the classroom is
  private and the requester has joined it or is its owning teacher; when the rule fails the
  handler returns with the document unchanged.
\<close>

theorem submit_permission:
  assumes "map_of db class_id = Some c" and "c_id c = class_id"
    and "f (lit ''action'') = Some (lit ''submit_assignment'')"
  shows "(\<not> submit_refused (classroom_page db s POST f class_id)
            \<longleftrightarrow> spec_submit_allowed (current_user s) c)
         \<and> (\<not> spec_submit_allowed (current_user s) c \<longrightarrow>
              (\<exists>out. classroom_page db s POST f class_id = Inr out \<and> db_out out = db))"
  using classroom_page_submit [of db class_id c f s] assms
  by (auto simp add: submit_refused_def split: sum.splits)

text \<open>
  Claim C3 on the example: joined Ben is not refused on the private classroom, Ben without
  the join is, and nobody may submit to the public classroom.
\<close>

theorem submit_permission_witness:
  "\<not> submit_refused (classroom_page example_store ben_joined POST (submit_form (lit ''0'')) (lit ''c1''))
   \<and> submit_refused (classroom_page example_store student_ben POST (submit_form (lit ''0'')) (lit ''c1''))
   \<and> submit_refused (classroom_page example_store ben_joined POST (submit_form (lit ''0'')) (lit ''c3''))"
proof -
  have act: "submit_form (lit ''0'') (lit ''action'') = Some (lit ''submit_assignment'')"
    by (simp add: submit_form_def)
  have k: "c_id algebra = lit ''c1''" "c_id civics = lit ''c3''"
    by (simp_all add: algebra_def civics_def)
  have v: "spec_submit_allowed (current_user ben_joined) algebra"
    "\<not> spec_submit_allowed (current_user student_ben) algebra"
    "\<not> spec_submit_allowed (current_user ben_joined) civics"
    by (simp_all add: spec_submit_allowed_def current_user_examples algebra_def civics_def)
  show ?thesis
    using submit_permission [where db = example_store and class_id = "lit ''c1''" and c = algebra
                               and f = "submit_form (lit ''0'')" and s = ben_joined]
      submit_permission [where db = example_store and class_id = "lit ''c1''" and c = algebra
                           and f = "submit_form (lit ''0'')" and s = student_ben]
      submit_permission [where db = example_store and class_id = "lit ''c3''" and c = civics
                           and f = "submit_form (lit ''0'')" and s = ben_joined]
      map_of_example_store k act v
    by simp
qed




section \<open>Posting an announcement\<close>

text \<open>
  Claim C6. When the requester is not the owning teacher, a \<^verbatim>\<open>post_announcement\<close> request
  returns with the document unchanged, and so with the classroom's announcements unchanged;
  the requester gets the message that only the teacher may post, or the redirect of the
  access check.
\<close>

theorem post_announcement_non_owner:
  assumes "map_of db class_id = Some c"
    and "f (lit ''action'') = Some (lit ''post_announcement'')"
    and "session_role s \<noteq> Some (lit ''Teacher'') \<or> user_name s \<noteq> Some (teacher_name c)"
  shows "\<exists>out. classroom_page db s POST f class_id = Inr out
           \<and> db_out out = db
           \<and> map_of (db_out out) class_id = Some c
           \<and> (flashes out = [(lit ''Only the classroom teacher may post announcements.'', lit ''danger'')]
                \<or> resp out = Redirect (lit ''index'') []
                  \<and> flashes out = [(lit ''This is a private classroom. Use a join code or be invited.'', lit ''warning'')])"
  using assms
  by (auto simp add: classroom_page_def post_actions_def current_user_def Let_def)

text \<open>
  Claim C6 on the example: joined student Ben posts to Ava's classroom.
\<close>

theorem post_announcement_non_owner_witness:
  "\<exists>out. classroom_page example_store ben_joined POST
            [lit ''action'' \<mapsto> lit ''post_announcement'', lit ''announcement'' \<mapsto> lit ''hello''] (lit ''c1'') = Inr out
     \<and> db_out out = example_store
     \<and> map_of (db_out out) (lit ''c1'') = Some algebra
     \<and> announcements algebra = []"
proof -
  let ?f = "[lit ''action'' \<mapsto> lit ''post_announcement'', lit ''announcement'' \<mapsto> lit ''hello'']"
  have act: "?f (lit ''action'') = Some (lit ''post_announcement'')" by simp
  have who: "session_role ben_joined \<noteq> Some (lit ''Teacher'')
               \<or> user_name ben_joined \<noteq> Some (teacher_name algebra)"
    by (simp add: ben_joined_def student_ben_def)
  from post_announcement_non_owner
         [where db = example_store and class_id = "lit ''c1''" and c = algebra and f = ?f
            and s = ben_joined] map_of_example_store(1) act who
  show ?thesis by (auto simp add: algebra_def)
qed


section \<open>The JSON projection\<close>

text \<open>
  Claim C7. The projection of an existing classroom has the key \<^verbatim>\<open>code\<close> exactly when the
  requester is the owning teacher, and has every other key with the classroom's value in
  both cases.
\<close>

theorem info_json_code_field:
  assumes "map_of db class_id = Some c"
  shows "\<exists>info. classroom_info_json db s class_id = Jsonify (JObj info) 200
           \<and> map_of info (lit ''code'') =
               (if session_role s = Some (lit ''Teacher'') \<and> user_name s = Some (teacher_name c)
                then Some (JStr (code c)) else None)
           \<and> map_of info (lit ''id'') = Some (JStr (c_id c))
           \<and> map_of info (lit ''name'') = Some (JStr (c_name c))
           \<and> map_of info (lit ''teacher_name'') = Some (JStr (teacher_name c))
           \<and> map_of info (lit ''visibility'') = Some (JStr (visibility c))
           \<and> map_of info (lit ''announcements'') = Some (JArr (map announcement_json (announcements c)))
           \<and> map_of info (lit ''lessons'') = Some (JArr (map lesson_json (lessons c)))
           \<and> map_of info (lit ''assignments'') = Some (JArr (map assignment_json (assignments c)))"
  using assms
  by (simp add: classroom_info_json_def current_user_def classroom_dict_def Let_def)

text \<open>
  Claim C7 on the example: Ava sees the code of her classroom, Ben does not.
\<close>

theorem info_json_code_field_witness:
  "(\<exists>info. classroom_info_json example_store teacher_ava (lit ''c1'') = Jsonify (JObj info) 200
       \<and> map_of info (lit ''code'') = Some (JStr (lit ''123456''))
       \<and> map_of info (lit ''name'') = Some (JStr (lit ''Algebra'')))
   \<and> (\<exists>info. classroom_info_json example_store ben_joined (lit ''c1'') = Jsonify (JObj info) 200
       \<and> map_of info (lit ''code'') = None
       \<and> map_of info (lit ''name'') = Some (JStr (lit ''Algebra'')))"
proof -
  have a: "session_role teacher_ava = Some (lit ''Teacher'') \<and> user_name teacher_ava = Some (teacher_name algebra)"
    and b: "\<not> (session_role ben_joined = Some (lit ''Teacher'') \<and> user_name ben_joined = Some (teacher_name algebra))"
    and c: "code algebra = lit ''123456''" "c_name algebra = lit ''Algebra''"
    by (simp_all add: teacher_ava_def ben_joined_def student_ben_def algebra_def)
  from info_json_code_field [OF map_of_example_store(1), of teacher_ava] a c
  have "\<exists>info. classroom_info_json example_store teacher_ava (lit ''c1'') = Jsonify (JObj info) 200
       \<and> map_of info (lit ''code'') = Some (JStr (lit ''123456''))
       \<and> map_of info (lit ''name'') = Some (JStr (lit ''Algebra''))"
    by auto
  moreover
  from info_json_code_field [OF map_of_example_store(1), of ben_joined] b c
  have "\<exists>info. classroom_info_json example_store ben_joined (lit ''c1'') = Jsonify (JObj info) 200
       \<and> map_of info (lit ''code'') = None
       \<and> map_of info (lit ''name'') = Some (JStr (lit ''Algebra''))"
    by auto
  ultimately show ?thesis by simp
qed


section \<open>Joining by code\<close>

lemma find_by_code_find:
  "find_by_code cs cd = find (\<lambda>c. visibility c = lit ''Private'' \<and> code c = cd) cs"
  by (induction cs) simp_all

text \<open>On the code it is given, the loop is the resolver of the specification.\<close>

lemma find_by_code_spec: "find_by_code (map snd db) cd = spec_resolve_by_code db cd"
  by (simp add: find_by_code_find spec_resolve_by_code_def)

lemma find_by_code_Some:
  "find_by_code cs cd = Some c \<Longrightarrow> c \<in> set cs \<and> visibility c = lit ''Private'' \<and> code c = cd"
  by (induction cs) (auto split: if_splits)

lemma find_by_code_None:
  "find_by_code cs cd = None \<longleftrightarrow> (\<forall>c \<in> set cs. \<not> (visibility c = lit ''Private'' \<and> code c = cd))"
  by (induction cs) auto

lemma find_by_code_first:
  "i < length cs \<Longrightarrow> visibility (cs ! i) = lit ''Private'' \<and> code (cs ! i) = cd \<Longrightarrow>
   \<forall>j < i. \<not> (visibility (cs ! j) = lit ''Private'' \<and> code (cs ! j) = cd) \<Longrightarrow>
   find_by_code cs cd = Some (cs ! i)"
proof (induction cs arbitrary: i)
  case Nil
  then show ?case by simp
next
  case (Cons c cs)
  show ?case
  proof (cases i)
    case 0
    with Cons.prems show ?thesis by simp
  next
    case (Suc k)
    from Cons.prems(3) Suc have head: "\<not> (visibility c = lit ''Private'' \<and> code c = cd)"
      by (metis nth_Cons_0 zero_less_Suc)
    have "\<forall>j < k. \<not> (visibility (cs ! j) = lit ''Private'' \<and> code (cs ! j) = cd)"
    proof (intro allI impI)
      fix j assume "j < k"
      then have "Suc j < i" using Suc by simp
      with Cons.prems(3) have "\<not> (visibility ((c # cs) ! Suc j) = lit ''Private'' \<and> code ((c # cs) ! Suc j) = cd)"
        by blast
      then show "\<not> (visibility (cs ! j) = lit ''Private'' \<and> code (cs ! j) = cd)" by simp
    qed
    with Cons.IH [of k] Cons.prems(1,2) Suc have "find_by_code cs cd = Some (cs ! k)"
      by simp
    with head Suc show ?thesis by auto
  qed
qed

text \<open>
  Claim C4 as worded. No private classroom of the example stores the code \<^verbatim>\<open>" 123456"\<close>
  (with its leading space), so the resolver of the specification finds nothing; the handler
  strips the input first and joins Ben to the first classroom with code \<^verbatim>\<open>123456\<close>.
\<close>

theorem join_untrimmed_counterexample:
  "spec_resolve_by_code example_store (lit '' 123456'') = None
   \<and> joined_classrooms student_ben = None
   \<and> joined_classrooms (session_out
        (join_classroom example_store student_ben [lit ''code'' \<mapsto> lit '' 123456''])) = Some [lit ''c1'']"
  by (simp add: spec_resolve_by_code_def example_store_def civics_def algebra_def biology_def
        student_ben_def join_classroom_def form_get_def strip_example Let_def)

text \<open>
  Claim C4, amended. The input code is stripped of surrounding white space, as \<^verbatim>\<open>str.strip()\<close>
  does it (every Unicode white space), and then compared as it is. When no private classroom stores the stripped code, the answer is the redirect
  with \<^verbatim>\<open>Invalid join code.\<close> and the session is unchanged. Otherwise the first such
  classroom in the order of the document is taken: the handler redirects to its page, the
  document is unchanged, and the joined list gains its id unless it is there already.
\<close>

theorem join_by_stripped_code:
  "((\<forall>c \<in> set (map snd db).
        \<not> (visibility c = lit ''Private'' \<and> code c = strip (form_get f (lit ''code'') []))) \<longrightarrow>
      join_classroom db s f =
        \<lparr> resp = Redirect (lit ''index'') [], db_out = db, session_out = s,
          flashes = [(lit ''Invalid join code.'', lit ''danger'')] \<rparr>)
   \<and> (\<forall>i < length db.
        visibility (snd (db ! i)) = lit ''Private''
        \<and> code (snd (db ! i)) = strip (form_get f (lit ''code'') [])
        \<and> (\<forall>j < i. \<not> (visibility (snd (db ! j)) = lit ''Private''
                        \<and> code (snd (db ! j)) = strip (form_get f (lit ''code'') []))) \<longrightarrow>
        resp (join_classroom db s f)
          = Redirect (lit ''classroom_page'') [(lit ''class_id'', c_id (snd (db ! i)))]
        \<and> db_out (join_classroom db s f) = db
        \<and> joined (current_user (session_out (join_classroom db s f)))
            = (if c_id (snd (db ! i)) \<in> set (joined (current_user s))
               then joined (current_user s)
               else joined (current_user s) @ [c_id (snd (db ! i))])
        \<and> set (joined (current_user (session_out (join_classroom db s f))))
            = insert (c_id (snd (db ! i))) (set (joined (current_user s))))"
proof (intro conjI impI allI)
  assume "\<forall>c \<in> set (map snd db).
        \<not> (visibility c = lit ''Private'' \<and> code c = strip (form_get f (lit ''code'') []))"
  then have "find_by_code (map snd db) (strip (form_get f (lit ''code'') [])) = None"
    by (simp only: find_by_code_None)
  then show "join_classroom db s f =
        \<lparr> resp = Redirect (lit ''index'') [], db_out = db, session_out = s,
          flashes = [(lit ''Invalid join code.'', lit ''danger'')] \<rparr>"
    by (simp add: join_classroom_def)
next
  fix i
  assume i: "i < length db"
    and hit: "visibility (snd (db ! i)) = lit ''Private''
        \<and> code (snd (db ! i)) = strip (form_get f (lit ''code'') [])
        \<and> (\<forall>j < i. \<not> (visibility (snd (db ! j)) = lit ''Private''
                        \<and> code (snd (db ! j)) = strip (form_get f (lit ''code'') [])))"
  let ?cd = "strip (form_get f (lit ''code'') [])"
  have "find_by_code (map snd db) ?cd = Some (map snd db ! i)"
  proof (rule find_by_code_first)
    show "i < length (map snd db)" using i by simp
    show "visibility (map snd db ! i) = lit ''Private'' \<and> code (map snd db ! i) = ?cd"
      using i hit by simp
    show "\<forall>j<i. \<not> (visibility (map snd db ! j) = lit ''Private'' \<and> code (map snd db ! j) = ?cd)"
      using i hit by simp
  qed
  then have found: "find_by_code (map snd db) ?cd = Some (snd (db ! i))"
    using i by simp
  show "resp (join_classroom db s f)
          = Redirect (lit ''classroom_page'') [(lit ''class_id'', c_id (snd (db ! i)))]"
    using found by (simp add: join_classroom_def Let_def)
  show "db_out (join_classroom db s f) = db"
    by (rule join_classroom_store)
  show jl: "joined (current_user (session_out (join_classroom db s f)))
            = (if c_id (snd (db ! i)) \<in> set (joined (current_user s))
               then joined (current_user s)
               else joined (current_user s) @ [c_id (snd (db ! i))])"
    using found by (simp add: join_classroom_def Let_def current_user_def)
  show "set (joined (current_user (session_out (join_classroom db s f))))
            = insert (c_id (snd (db ! i))) (set (joined (current_user s)))"
    by (subst jl) auto
qed

text \<open>
  Claim C4, amended, on the example: two classrooms share the code and the first one is
  joined; an unknown code is refused.
\<close>

theorem join_by_stripped_code_witness:
  "resp (join_classroom example_store student_ben [lit ''code'' \<mapsto> lit '' 123456''])
     = Redirect (lit ''classroom_page'') [(lit ''class_id'', lit ''c1'')]
   \<and> joined (current_user (session_out
        (join_classroom example_store student_ben [lit ''code'' \<mapsto> lit '' 123456'']))) = [lit ''c1'']
   \<and> join_classroom example_store student_ben [lit ''code'' \<mapsto> lit ''654321'']
       = \<lparr> resp = Redirect (lit ''index'') [], db_out = example_store, session_out = student_ben,
           flashes = [(lit ''Invalid join code.'', lit ''danger'')] \<rparr>"
proof -
  let ?f = "[lit ''code'' \<mapsto> lit '' 123456'']"
  let ?g = "[lit ''code'' \<mapsto> lit ''654321'']"
  have len: "(1::nat) < length example_store" by (simp add: example_store_def)
  have hit: "visibility (snd (example_store ! 1)) = lit ''Private''
      \<and> code (snd (example_store ! 1)) = strip (form_get ?f (lit ''code'') [])
      \<and> (\<forall>j < 1. \<not> (visibility (snd (example_store ! j)) = lit ''Private''
                      \<and> code (snd (example_store ! j)) = strip (form_get ?f (lit ''code'') [])))"
    by (simp add: example_store_def civics_def algebra_def form_get_def strip_example)
  have id1: "c_id (snd (example_store ! 1)) = lit ''c1''"
    by (simp add: example_store_def algebra_def)
  have miss: "\<forall>c \<in> set (map snd example_store).
        \<not> (visibility c = lit ''Private'' \<and> code c = strip (form_get ?g (lit ''code'') []))"
    by (simp add: example_store_def civics_def algebra_def biology_def form_get_def
          strip_examples)
  from join_by_stripped_code [of example_store ?f student_ben] len hit
  have "resp (join_classroom example_store student_ben ?f)
          = Redirect (lit ''classroom_page'') [(lit ''class_id'', c_id (snd (example_store ! 1)))]
        \<and> joined (current_user (session_out (join_classroom example_store student_ben ?f)))
            = (if c_id (snd (example_store ! 1)) \<in> set (joined (current_user student_ben))
               then joined (current_user student_ben)
               else joined (current_user student_ben) @ [c_id (snd (example_store ! 1))])"
    by blast
  moreover from join_by_stripped_code [of example_store ?g student_ben] miss
  have "join_classroom example_store student_ben ?g
       = \<lparr> resp = Redirect (lit ''index'') [], db_out = example_store, session_out = student_ben,
           flashes = [(lit ''Invalid join code.'', lit ''danger'')] \<rparr>"
    by blast
  ultimately show ?thesis
    using id1 by (simp add: current_user_def student_ben_def)
qed

text \<open>
  White space beyond ASCII is stripped as well: a code typed between a no-break space and an
  ideographic space joins the same classroom.
\<close>

lemma join_no_break_space:
  "joined_classrooms (session_out (join_classroom example_store student_ben
       [lit ''code'' \<mapsto> 0xA0 # lit ''123456'' @ [0x3000]])) = Some [lit ''c1'']"
  by (simp add: join_classroom_def example_store_def civics_def algebra_def form_get_def
        strip_no_break_space student_ben_def Let_def)

text \<open>
  Claim C8. Joining a second time with the same code leaves the session of the first join
  as it is: the joined list is the same list, of the same length.
\<close>

theorem join_twice_same_session:
  "session_out (join_classroom db (session_out (join_classroom db s f)) f)
     = session_out (join_classroom db s f)
   \<and> length (joined (current_user
         (session_out (join_classroom db (session_out (join_classroom db s f)) f))))
       = length (joined (current_user (session_out (join_classroom db s f))))"
proof -
  have "session_out (join_classroom db (session_out (join_classroom db s f)) f)
     = session_out (join_classroom db s f)"
    by (cases "find_by_code (map snd db) (strip (form_get f (lit ''code'') []))")
       (simp_all add: join_classroom_def Let_def)
  then show ?thesis by simp
qed

text \<open>
  A join never inserts an id twice: a joined list without duplicates stays so.
\<close>

lemma join_classroom_distinct:
  "distinct (joined (current_user s)) \<Longrightarrow>
   distinct (joined (current_user (session_out (join_classroom db s f))))"
  by (cases "find_by_code (map snd db) (strip (form_get f (lit ''code'') []))")
     (auto simp add: join_classroom_def Let_def current_user_def split: option.splits)

text \<open>
  Claim C8 on the example: after one join and after two, Ben's list holds the id once.
\<close>

theorem join_twice_same_session_witness:
  "joined_classrooms (session_out (join_classroom example_store
       (session_out (join_classroom example_store student_ben [lit ''code'' \<mapsto> lit ''123456'']))
       [lit ''code'' \<mapsto> lit ''123456''])) = Some [lit ''c1'']
   \<and> joined_classrooms (session_out
       (join_classroom example_store student_ben [lit ''code'' \<mapsto> lit ''123456''])) = Some [lit ''c1'']"
proof -
  let ?f = "[lit ''code'' \<mapsto> lit ''123456'']"
  have one: "joined_classrooms (session_out (join_classroom example_store student_ben ?f))
      = Some [lit ''c1'']"
    by (simp add: join_classroom_def example_store_def civics_def algebra_def form_get_def
          strip_examples student_ben_def Let_def)
  from join_twice_same_session [of example_store student_ben ?f] one
  show ?thesis by simp
qed

text \<open>
  Claim C10. A session with no name and no role that presents a matching code has the
  classroom's id in its joined list afterwards, the same list a logged-in student gets, and
  its next submission at a valid index is appended with the student field absent.
\<close>

theorem join_and_submit_without_login:
  assumes "user_name s = None" and "session_role s = None"
    and "find_by_code (map snd db) (strip (form_get f (lit ''code'') [])) = Some c"
    and "map_of db (c_id c) = Some c"
    and "g (lit ''action'') = Some (lit ''submit_assignment'')"
    and "submit_index g = Inr i" and "0 \<le> i" and "i < int (length (assignments c))"
  shows "c_id c \<in> set (joined (current_user (session_out (join_classroom db s f))))
         \<and> joined_classrooms (session_out (join_classroom db s f))
             = joined_classrooms (session_out (join_classroom db
                 (s\<lparr>user_name := Some n, session_role := Some (lit ''Student'')\<rparr>) f))
         \<and> (\<exists>out c'. classroom_page db (session_out (join_classroom db s f)) POST g (c_id c)
                        = Inr out
               \<and> flashes out = [(lit ''Assignment submitted.'', lit ''success'')]
               \<and> map_of (db_out out) (c_id c) = Some c'
               \<and> submissions (assignments c' ! nat i)
                    = submissions (assignments c ! nat i)
                      @ [\<lparr>student = None,
                          sub_text = strip (form_get g (lit ''submission_text'') [])\<rparr>])"
proof -
  let ?s' = "session_out (join_classroom db s f)"
  have priv: "visibility c = lit ''Private''"
    using find_by_code_Some [OF assms(3)] by simp
  have joined: "c_id c \<in> set (joined (current_user ?s'))"
    using assms(3) by (simp add: join_classroom_def Let_def current_user_def)
  have same: "joined_classrooms ?s'
      = joined_classrooms (session_out (join_classroom db
                 (s\<lparr>user_name := Some n, session_role := Some (lit ''Student'')\<rparr>) f))"
    using assms(3) by (simp add: join_classroom_def Let_def)
  have nobody: "name (current_user ?s') = None"
    using assms(1,3) by (simp add: join_classroom_def Let_def current_user_def)
  have allowed: "spec_submit_allowed (current_user ?s') c"
    using priv joined by (simp add: spec_submit_allowed_def)
  have len: "nat i < length (assignments c)"
    using assms(7,8) by (auto simp add: nat_less_iff)
  let ?x = "\<lparr>student = None, sub_text = strip (form_get g (lit ''submission_text'') [])\<rparr>"
  have "classroom_page db ?s' POST g (c_id c) =
      Inr \<lparr> resp = RenderClassroom (Some (append_submission c (nat i) ?x)) (current_user ?s'),
            db_out = AList.update (c_id c) (append_submission c (nat i) ?x) db,
            session_out = ?s',
            flashes = [(lit ''Assignment submitted.'', lit ''success'')] \<rparr>"
    using classroom_page_submit [of db "c_id c" c g ?s'] assms(4-8) allowed nobody by simp
  then have "\<exists>out c'. classroom_page db ?s' POST g (c_id c) = Inr out
               \<and> flashes out = [(lit ''Assignment submitted.'', lit ''success'')]
               \<and> map_of (db_out out) (c_id c) = Some c'
               \<and> submissions (assignments c' ! nat i) = submissions (assignments c ! nat i) @ [?x]"
    using append_submission_assignments(2) [OF len, of ?x]
    by (simp add: map_of_update_same)
  with joined same show ?thesis by blast
qed

text \<open>
  Claim C10 on the example session that never logged in.
\<close>

theorem join_and_submit_without_login_witness:
  "joined (current_user (session_out (join_classroom example_store anonymous
       [lit ''code'' \<mapsto> lit ''123456'']))) = [lit ''c1'']
   \<and> (\<exists>out c'. classroom_page example_store
                   (session_out (join_classroom example_store anonymous
                      [lit ''code'' \<mapsto> lit ''123456'']))
                   POST (submit_form (lit ''0'')) (lit ''c1'') = Inr out
          \<and> map_of (db_out out) (lit ''c1'') = Some c'
          \<and> submissions (assignments c' ! 0) = [\<lparr>student = None, sub_text = lit ''done''\<rparr>])"
proof -
  let ?f = "[lit ''code'' \<mapsto> lit ''123456'']"
  have found: "find_by_code (map snd example_store) (strip (form_get ?f (lit ''code'') []))
      = Some algebra"
    by (simp add: example_store_def civics_def algebra_def form_get_def strip_examples)
  have a: "user_name anonymous = None" "session_role anonymous = None"
    by (simp_all add: anonymous_def)
  have k: "c_id algebra = lit ''c1''" by (simp add: algebra_def)
  have act: "submit_form (lit ''0'') (lit ''action'') = Some (lit ''submit_assignment'')"
    by (simp add: submit_form_def)
  have rng: "(0::int) \<le> 0" "(0::int) < int (length (assignments algebra))"
    by (simp_all add: algebra_def)
  have sub: "submissions (assignments algebra ! 0) = []"
    "strip (form_get (submit_form (lit ''0'')) (lit ''submission_text'') []) = lit ''done''"
    by (simp_all add: algebra_def submit_form_def form_get_def strip_examples)
  have m: "map_of example_store (c_id algebra) = Some algebra"
    by (simp add: k map_of_example_store)
  have j: "joined (current_user (session_out (join_classroom example_store anonymous ?f)))
      = [lit ''c1'']"
    using found by (simp add: join_classroom_def Let_def current_user_def anonymous_def k)
  from join_and_submit_without_login
         [OF a found m act submit_index_examples(1) rng, of "lit ''Ben''"]
  have "\<exists>out c'. classroom_page example_store
                   (session_out (join_classroom example_store anonymous ?f))
                   POST (submit_form (lit ''0'')) (lit ''c1'') = Inr out
          \<and> map_of (db_out out) (lit ''c1'') = Some c'
          \<and> submissions (assignments c' ! 0) = [\<lparr>student = None, sub_text = lit ''done''\<rparr>]"
    by (simp add: k sub) blast
  with j show ?thesis by simp
qed

end
